theory Spec2Isabelle
  imports Main "HOL-Library.Sublist" "HOL-Library.Multiset"
begin

section \<open>Data model\<close>

text \<open>
  The front end reads two kinds of entities from the remote service. A customer carries
  seven text attributes and, when read from the service, a self link
  (\<^verbatim>\<open>_links.self.href\<close>); the link is absent on the form data of a customer that
  has not been created yet. A training carries an integer id, a date, a duration in
  minutes, an activity label and the embedded customer, which the training list treats as
  possibly \<^verbatim>\<open>null\<close>.

  Strings are \<^typ>\<open>string\<close>. Durations are integers (whole minutes), and the date of a
  training is the instant \<^verbatim>\<open>new Date(training.date).getTime()\<close>, an integer
  number of milliseconds. JavaScript computes with doubles, which add and multiply
  integers exactly up to \<open>2^53\<close>; dates that do not parse and fractional or larger
  numbers are outside the model.
\<close>

record customer =
  firstname :: string
  lastname :: string
  email :: string
  phone :: string
  streetaddress :: string
  postcode :: string
  city :: string
  links_self_href :: "string option"

record training =
  id_training :: int
  date :: int
  duration :: int
  activity :: string
  customer :: "customer option"

text \<open>
  A rejected promise or a thrown exception is a value of type \<open>error\<close>; an asynchronous
  operation that settles is a value of \<open>error + 'a\<close>, \<open>Inl\<close> for the rejection.
\<close>

datatype error = TransportError string | TypeError string

section \<open>Statistics aggregation (\<^verbatim>\<open>src/pages/Statistics.jsx\<close>, fetchStats)\<close>

text \<open>
  \<^verbatim>\<open>groupBy(trainings, 'activity')\<close> walks the array in order and builds a plain
  object: the value is pushed on the array stored under its key when the object already
  has that key, and a new property holding a one-element array is added otherwise. The
  object is an association list in the order in which its properties were created.
\<close>

type_synonym 'v js_object = "(string \<times> 'v) list"

fun push_value :: "string \<Rightarrow> 'a \<Rightarrow> 'a list js_object \<Rightarrow> 'a list js_object" where
  "push_value key v [] = [(key, [v])]"
| "push_value key v ((k, vs) # rest) =
     (if k = key then (k, vs @ [v]) # rest else (k, vs) # push_value key v rest)"

definition groupBy :: "'a list \<Rightarrow> ('a \<Rightarrow> string) \<Rightarrow> 'a list js_object" where
  "groupBy collection iteratee = foldl (\<lambda>result v. push_value (iteratee v) v result) [] collection"

text \<open>
  \<^verbatim>\<open>Object.entries\<close> lists the own properties of an object: first the keys that are
  array indices (the canonical decimal numerals of \<open>0 .. 2^32 - 2\<close>, of ten digits at
  most) in ascending numeric order, then all other string keys in creation order.
\<close>

definition is_digit :: "char \<Rightarrow> bool" where
  "is_digit c = (48 \<le> (of_char c :: int) \<and> (of_char c :: int) \<le> 57)"

definition digits_value :: "string \<Rightarrow> int" where
  "digits_value s = foldl (\<lambda>n c. 10 * n + ((of_char c :: int) - 48)) 0 s"

definition is_array_index :: "string \<Rightarrow> bool" where
  "is_array_index s =
     (s \<noteq> [] \<and> list_all is_digit s \<and> (hd s \<noteq> CHR ''0'' \<or> length s = 1)
      \<and> length s \<le> 10 \<and> digits_value s \<le> 4294967294)"

definition Object_entries :: "'v js_object \<Rightarrow> (string \<times> 'v) list" where
  "Object_entries obj =
     sort_key (\<lambda>(k, v). digits_value k) (filter (\<lambda>(k, v). is_array_index k) obj)
     @ filter (\<lambda>(k, v). \<not> is_array_index k) obj"

text \<open>
  \<^verbatim>\<open>sumBy(trainings, 'duration')\<close> adds the durations from left to right, starting
  from the first one; it is \<open>0\<close> on an empty array.
\<close>

definition sumBy :: "'a list \<Rightarrow> ('a \<Rightarrow> int) \<Rightarrow> int" where
  "sumBy array iteratee = foldl (\<lambda>result v. result + iteratee v) 0 array"

record activity_stat =
  stat_activity :: string
  stat_duration :: int

text \<open>
  The chart data: one entry per property of the grouped object, then
  \<^verbatim>\<open>sort((a, b) => b.duration - a.duration)\<close>, a stable sort that puts the larger
  duration first.
\<close>

definition activityStats :: "training list \<Rightarrow> activity_stat list" where
  "activityStats trainings =
     map (\<lambda>(a, ts). \<lparr>stat_activity = a, stat_duration = sumBy ts duration\<rparr>)
       (Object_entries (groupBy trainings activity))"

definition sortedStats :: "training list \<Rightarrow> activity_stat list" where
  "sortedStats trainings = sort_key (\<lambda>s. - stat_duration s) (activityStats trainings)"

section \<open>Strings\<close>

text \<open>
  \<^verbatim>\<open>String.prototype.toLowerCase\<close> belongs to the JavaScript runtime, not to this
  repository: it lower-cases every cased character of its argument, in whatever script.
  The functions that call it take it as their first argument, named as in the source, and
  every property below is proved for every function on strings in its place.

  \<^verbatim>\<open>s.includes(t)\<close> holds when \<open>t\<close> occurs in \<open>s\<close> as a contiguous run of
  characters; the empty string occurs in every string.
\<close>

definition str_includes :: "string \<Rightarrow> string \<Rightarrow> bool" where
  "str_includes s searchString = sublist searchString s"

text \<open>
  The template literal \<^verbatim>\<open>`${c.firstname} ${c.lastname}`\<close>. Reading a property of
  \<^verbatim>\<open>null\<close> or \<^verbatim>\<open>undefined\<close> throws a TypeError.
\<close>

definition customer_fullname :: "customer option \<Rightarrow> error + string" where
  "customer_fullname c =
     (case c of
        None \<Rightarrow> Inl (TypeError ''Cannot read properties of null (reading firstname)'')
      | Some c \<Rightarrow> Inr (firstname c @ '' '' @ lastname c))"

text \<open>
  \<^verbatim>\<open>Array.prototype.filter\<close> and \<^verbatim>\<open>Array.prototype.map\<close> with a callback that may
  throw: the callback runs on the elements in order and the first exception ends the
  whole call.
\<close>

fun filter_js :: "('a \<Rightarrow> error + bool) \<Rightarrow> 'a list \<Rightarrow> error + 'a list" where
  "filter_js p [] = Inr []"
| "filter_js p (x # xs) =
     (case p x of
        Inl e \<Rightarrow> Inl e
      | Inr b \<Rightarrow>
          (case filter_js p xs of
             Inl e \<Rightarrow> Inl e
           | Inr ys \<Rightarrow> Inr (if b then x # ys else ys)))"

fun map_js :: "('a \<Rightarrow> error + 'b) \<Rightarrow> 'a list \<Rightarrow> error + 'b list" where
  "map_js f [] = Inr []"
| "map_js f (x # xs) =
     (case f x of
        Inl e \<Rightarrow> Inl e
      | Inr y \<Rightarrow> (case map_js f xs of Inl e \<Rightarrow> Inl e | Inr ys \<Rightarrow> Inr (y # ys)))"

section \<open>Local text search\<close>

text \<open>
  CustomerList: a customer is shown when the lower-cased search term occurs in its
  lower-cased first name, last name, email or city.
\<close>

definition filteredCustomers ::
  "(string \<Rightarrow> string) \<Rightarrow> string \<Rightarrow> customer list \<Rightarrow> customer list" where
  "filteredCustomers toLowerCase searchTerm customers =
     filter (\<lambda>customer.
        let searchStr = toLowerCase searchTerm in
          str_includes (toLowerCase (firstname customer)) searchStr \<or>
          str_includes (toLowerCase (lastname customer)) searchStr \<or>
          str_includes (toLowerCase (email customer)) searchStr \<or>
          str_includes (toLowerCase (city customer)) searchStr) customers"

text \<open>
  TrainingList: a training is shown when the term occurs in its activity or, when the
  training has a customer, in the customer's full name. The name is only read behind the
  guard \<^verbatim>\<open>training.customer &&\<close>.
\<close>

definition training_matches ::
  "(string \<Rightarrow> string) \<Rightarrow> string \<Rightarrow> training \<Rightarrow> error + bool" where
  "training_matches toLowerCase searchTerm training =
     (let searchStr = toLowerCase searchTerm in
        if str_includes (toLowerCase (activity training)) searchStr then Inr True
        else if customer training = None then Inr False
        else (case customer_fullname (customer training) of
                Inl e \<Rightarrow> Inl e
              | Inr name \<Rightarrow> Inr (str_includes (toLowerCase name) searchStr)))"

definition filteredTrainings ::
  "(string \<Rightarrow> string) \<Rightarrow> string \<Rightarrow> training list \<Rightarrow> error + training list" where
  "filteredTrainings toLowerCase searchTerm trainings =
     filter_js (training_matches toLowerCase searchTerm) trainings"

section \<open>Calendar projection (CalendarPage, fetchTrainings)\<close>

record calendar_event =
  ev_id :: int
  ev_title :: string
  ev_start :: int
  ev_end :: int
  ev_customer :: string

text \<open>
  One calendar event per training. The customer's name is read without a guard, so a
  training without a customer makes the callback throw.
\<close>

definition calendarEvent :: "training \<Rightarrow> error + calendar_event" where
  "calendarEvent training =
     (case customer_fullname (customer training) of
        Inl e \<Rightarrow> Inl e
      | Inr name \<Rightarrow>
          Inr \<lparr>ev_id = id_training training,
               ev_title = activity training @ '' / '' @ name,
               ev_start = date training,
               ev_end = date training + duration training * 60000,
               ev_customer = name\<rparr>)"

definition calendarEvents :: "training list \<Rightarrow> error + calendar_event list" where
  "calendarEvents trainings = map_js calendarEvent trainings"

section \<open>API client (\<^verbatim>\<open>src/services/api.js\<close>)\<close>

datatype http_method = GET | POST | PUT | DELETE

record http_request =
  req_method :: http_method
  req_url :: string

definition BASE_URL :: string where
  "BASE_URL = ''https://customer-rest-service-frontend-personaltrainer.2.rahtiapp.fi/api''"

text \<open>
  The body of a new training, as the training dialog of the customer list builds it: the
  form fields and the customer's locator.
\<close>

record training_form =
  form_date :: string
  form_duration :: int
  form_activity :: string
  form_customer :: string

text \<open>
  The \<^verbatim>\<open>api\<close> object has seven properties, each an asynchronous function. A call of
  one of them, with its arguments, is a value of \<open>api_call\<close>.
\<close>

datatype api_call =
    getCustomers
  | addCustomer customer
  | updateCustomer string customer
  | deleteCustomer string
  | getTrainings
  | addTraining training_form
  | deleteTraining int

text \<open>
  The decimal numeral of an integer, as the template literal of \<^verbatim>\<open>deleteTraining\<close>
  prints the id: the digits are produced from the last one, in front of those already
  there.
\<close>

definition digit_char :: "nat \<Rightarrow> char" where
  "digit_char d = char_of (of_char (CHR ''0'') + d)"

function decimal_digits :: "nat \<Rightarrow> string \<Rightarrow> string" where
  "decimal_digits n rest =
     (let digits = digit_char (n mod 10) # rest
      in if n div 10 = 0 then digits else decimal_digits (n div 10) digits)"
  by pat_completeness auto
termination
  by (relation "measure fst") auto

definition Number_toString :: "int \<Rightarrow> string" where
  "Number_toString i =
     (if 0 \<le> i then decimal_digits (nat i) [] else CHR ''-'' # decimal_digits (nat (- i)) [])"

text \<open>The HTTP request that each operation of the client sends.\<close>

fun api_request :: "api_call \<Rightarrow> http_request" where
  "api_request getCustomers = \<lparr>req_method = GET, req_url = BASE_URL @ ''/customers''\<rparr>"
| "api_request (addCustomer cust) = \<lparr>req_method = POST, req_url = BASE_URL @ ''/customers''\<rparr>"
| "api_request (updateCustomer customerUrl cust) = \<lparr>req_method = PUT, req_url = customerUrl\<rparr>"
| "api_request (deleteCustomer customerUrl) = \<lparr>req_method = DELETE, req_url = customerUrl\<rparr>"
| "api_request getTrainings = \<lparr>req_method = GET, req_url = BASE_URL @ ''/gettrainings''\<rparr>"
| "api_request (addTraining training) = \<lparr>req_method = POST, req_url = BASE_URL @ ''/trainings''\<rparr>"
| "api_request (deleteTraining trainingId) =
     \<lparr>req_method = DELETE, req_url = BASE_URL @ ''/trainings/'' @ Number_toString trainingId\<rparr>"

text \<open>
  The request of the reset action, which \<^verbatim>\<open>handleResetDatabase\<close> of the layout sends
  with the HTTP library itself.
\<close>

definition reset_request :: http_request where
  "reset_request =
     \<lparr>req_method = POST,
      req_url = ''https://customer-rest-service-frontend-personaltrainer.2.rahtiapp.fi/reset''\<rparr>"

text \<open>
  The remote service, as far as one handler sees it: how each operation of the client
  settles. No operation retries or caches, so the outcome of a call is the outcome of its
  one request. The payload that the creating and replacing operations return is unused by
  every caller.
\<close>

record remote =
  getCustomers_result :: "error + customer list"
  addCustomer_result :: "customer \<Rightarrow> error + unit"
  updateCustomer_result :: "string \<Rightarrow> customer \<Rightarrow> error + unit"
  deleteCustomer_result :: "string \<Rightarrow> error + unit"
  getTrainings_result :: "error + training list"
  addTraining_result :: "training_form \<Rightarrow> error + unit"
  deleteTraining_result :: "int \<Rightarrow> error + unit"

text \<open>
  What a handler does besides updating its component's state: the calls of the client it
  makes, the requests it sends itself, the notifications it shows, what it logs.
\<close>

datatype event =
    ApiCall api_call
  | AxiosRequest http_request
  | ToastSuccess string
  | ToastError string
  | ConsoleError string error
  | PageReload

text \<open>The calls of the client among the events of a handler, in order.\<close>

fun api_calls :: "event list \<Rightarrow> api_call list" where
  "api_calls [] = []"
| "api_calls (ApiCall c # evs) = c # api_calls evs"
| "api_calls (ev # evs) = api_calls evs"

section \<open>Customer list (CustomerList)\<close>

record customer_list =
  customers :: "customer list"
  loading :: bool
  searchTerm :: string
  customerDialogOpen :: bool
  trainingDialogOpen :: bool
  deleteDialogOpen :: bool
  selectedCustomer :: "customer option"
  selectedCustomerUrl :: string
  isEditing :: bool

definition CustomerList_initial :: customer_list where
  "CustomerList_initial =
     \<lparr>customers = [], loading = True, searchTerm = [], customerDialogOpen = False,
      trainingDialogOpen = False, deleteDialogOpen = False, selectedCustomer = None,
      selectedCustomerUrl = [], isEditing = False\<rparr>"

text \<open>
  Each handler maps the remote's behaviour and the state of the component to the events
  of the handler, in order, and the state once every promise of the handler has settled.
\<close>

definition fetchCustomers :: "remote \<Rightarrow> customer_list \<Rightarrow> event list \<times> customer_list" where
  "fetchCustomers r st =
     (let st1 = st\<lparr>loading := True\<rparr> in
        case getCustomers_result r of
          Inr cs \<Rightarrow> ([ApiCall getCustomers], st1\<lparr>customers := cs, loading := False\<rparr>)
        | Inl e \<Rightarrow>
            ([ApiCall getCustomers, ToastError ''Failed to fetch customers'',
              ConsoleError ''Error fetching customers:'' e],
             st1\<lparr>loading := False\<rparr>))"

text \<open>
  The handlers of the customer list do not wait for \<^verbatim>\<open>fetchCustomers()\<close>: the dialog
  closes while the list is on its way. The fields written by the two are different, so
  the state after both is the one below.
\<close>

definition handleAddCustomer :: "remote \<Rightarrow> customer \<Rightarrow> customer_list \<Rightarrow> event list \<times> customer_list" where
  "handleAddCustomer r cust st =
     (case addCustomer_result r cust of
        Inr _ \<Rightarrow>
          (let (evs, st1) = fetchCustomers r st in
             ([ApiCall (addCustomer cust), ToastSuccess ''Customer added successfully''] @ evs,
              st1\<lparr>customerDialogOpen := False\<rparr>))
      | Inl e \<Rightarrow>
          ([ApiCall (addCustomer cust), ToastError ''Failed to add customer'',
            ConsoleError ''Error adding customer:'' e], st))"

text \<open>
  \<^verbatim>\<open>if (!selectedCustomer?._links?.self.href) return;\<close> leaves when no customer is
  selected, when the selected one has no link, and when the link is the empty string.
\<close>

definition handleEditCustomer :: "remote \<Rightarrow> customer \<Rightarrow> customer_list \<Rightarrow> event list \<times> customer_list" where
  "handleEditCustomer r cust st =
     (case selectedCustomer st of
        None \<Rightarrow> ([], st)
      | Some sel \<Rightarrow>
          (case links_self_href sel of
             None \<Rightarrow> ([], st)
           | Some href \<Rightarrow>
               if href = [] then ([], st)
               else
                 (case updateCustomer_result r href cust of
                    Inr _ \<Rightarrow>
                      (let (evs, st1) = fetchCustomers r st in
                         ([ApiCall (updateCustomer href cust),
                           ToastSuccess ''Customer updated successfully''] @ evs,
                          st1\<lparr>customerDialogOpen := False, selectedCustomer := None\<rparr>))
                  | Inl e \<Rightarrow>
                      ([ApiCall (updateCustomer href cust),
                        ToastError ''Failed to update customer'',
                        ConsoleError ''Error updating customer:'' e], st))))"

definition handleDeleteCustomer :: "remote \<Rightarrow> customer_list \<Rightarrow> event list \<times> customer_list" where
  "handleDeleteCustomer r st =
     (if selectedCustomerUrl st = [] then ([], st)
      else
        (case deleteCustomer_result r (selectedCustomerUrl st) of
           Inr _ \<Rightarrow>
             (let (evs, st1) = fetchCustomers r st in
                ([ApiCall (deleteCustomer (selectedCustomerUrl st)),
                  ToastSuccess ''Customer deleted successfully''] @ evs,
                 st1\<lparr>deleteDialogOpen := False, selectedCustomerUrl := []\<rparr>))
         | Inl e \<Rightarrow>
             ([ApiCall (deleteCustomer (selectedCustomerUrl st)),
               ToastError ''Failed to delete customer'',
               ConsoleError ''Error deleting customer:'' e], st)))"

definition handleAddTraining :: "remote \<Rightarrow> training_form \<Rightarrow> customer_list \<Rightarrow> event list \<times> customer_list" where
  "handleAddTraining r training st =
     (case addTraining_result r training of
        Inr _ \<Rightarrow>
          ([ApiCall (addTraining training), ToastSuccess ''Training added successfully''],
           st\<lparr>trainingDialogOpen := False, selectedCustomerUrl := []\<rparr>)
      | Inl e \<Rightarrow>
          ([ApiCall (addTraining training), ToastError ''Failed to add training'',
            ConsoleError ''Error adding training:'' e], st))"

section \<open>Training list (TrainingList)\<close>

record training_list =
  trainings :: "training list"
  loading_T :: bool
  searchTerm_T :: string
  deleteDialogOpen_T :: bool
  selectedTrainingId :: "int option"

definition TrainingList_initial :: training_list where
  "TrainingList_initial =
     \<lparr>trainings = [], loading_T = True, searchTerm_T = [], deleteDialogOpen_T = False,
      selectedTrainingId = None\<rparr>"

definition fetchTrainings :: "remote \<Rightarrow> training_list \<Rightarrow> event list \<times> training_list" where
  "fetchTrainings r st =
     (case getTrainings_result r of
        Inr data \<Rightarrow> ([ApiCall getTrainings], st\<lparr>trainings := data, loading_T := False\<rparr>)
      | Inl e \<Rightarrow>
          ([ApiCall getTrainings, ConsoleError ''Error fetching trainings:'' e,
            ToastError ''Failed to load training sessions''],
           st\<lparr>loading_T := False\<rparr>))"

text \<open>
  \<^verbatim>\<open>if (!selectedTrainingId) return;\<close> leaves when no id is selected and when the
  selected id is \<open>0\<close>. The refresh never throws, so the handler's own failure branch is
  the failure of the deleting call alone.
\<close>

definition handleDeleteTraining :: "remote \<Rightarrow> training_list \<Rightarrow> event list \<times> training_list" where
  "handleDeleteTraining r st =
     (case selectedTrainingId st of
        None \<Rightarrow> ([], st)
      | Some trainingId \<Rightarrow>
          if trainingId = 0 then ([], st)
          else
            (case deleteTraining_result r trainingId of
               Inr _ \<Rightarrow>
                 (let (evs, st1) = fetchTrainings r st in
                    ([ApiCall (deleteTraining trainingId)] @ evs
                       @ [ToastSuccess ''Training session deleted successfully''],
                     st1\<lparr>deleteDialogOpen_T := False, selectedTrainingId := None\<rparr>))
             | Inl e \<Rightarrow>
                 ([ApiCall (deleteTraining trainingId),
                   ConsoleError ''Error deleting training:'' e,
                   ToastError ''Failed to delete training session''], st)))"

section \<open>Calendar page, statistics page and layout\<close>

datatype calendar_view = month | week | day

record calendar_page =
  events :: "calendar_event list"
  view :: calendar_view
  loading_C :: bool

definition CalendarPage_initial :: calendar_page where
  "CalendarPage_initial = \<lparr>events = [], view = month, loading_C = True\<rparr>"

definition CalendarPage_fetchTrainings :: "remote \<Rightarrow> calendar_page \<Rightarrow> event list \<times> calendar_page" where
  "CalendarPage_fetchTrainings r st =
     (case getTrainings_result r of
        Inr ts \<Rightarrow>
          (case calendarEvents ts of
             Inr evs \<Rightarrow>
               ([ApiCall getTrainings], st\<lparr>events := evs, loading_C := False\<rparr>)
           | Inl e \<Rightarrow>
               ([ApiCall getTrainings, ConsoleError ''Error fetching trainings:'' e,
                 ToastError ''Failed to load calendar events''],
                st\<lparr>loading_C := False\<rparr>))
      | Inl e \<Rightarrow>
          ([ApiCall getTrainings, ConsoleError ''Error fetching trainings:'' e,
            ToastError ''Failed to load calendar events''],
           st\<lparr>loading_C := False\<rparr>))"

record statistics_page =
  stats :: "activity_stat list"
  loading_S :: bool

definition StatisticsPage_initial :: statistics_page where
  "StatisticsPage_initial = \<lparr>stats = [], loading_S = True\<rparr>"

definition fetchStats :: "remote \<Rightarrow> statistics_page \<Rightarrow> event list \<times> statistics_page" where
  "fetchStats r st =
     (case getTrainings_result r of
        Inr ts \<Rightarrow> ([ApiCall getTrainings], st\<lparr>stats := sortedStats ts, loading_S := False\<rparr>)
      | Inl e \<Rightarrow>
          ([ApiCall getTrainings, ConsoleError ''Error fetching training statistics:'' e,
            ToastError ''Failed to load statistics''],
           st\<lparr>loading_S := False\<rparr>))"

text \<open>
  The layout's reset button: the argument is how the request settles.
\<close>

definition handleResetDatabase :: "error + unit \<Rightarrow> event list" where
  "handleResetDatabase posted =
     (case posted of
        Inr _ \<Rightarrow>
          [AxiosRequest reset_request, ToastSuccess ''Database reset successfully'', PageReload]
      | Inl e \<Rightarrow>
          [AxiosRequest reset_request, ToastError ''Failed to reset database'',
           ConsoleError ''Error resetting database:'' e])"

section \<open>Sample data\<close>

text \<open>Concrete customers, trainings and remotes on which the properties below are run.\<close>

definition alice :: customer where
  "alice = \<lparr>firstname = ''Alice'', lastname = ''Smith'', email = ''alice@example.org'',
            phone = ''040123'', streetaddress = ''Main Street 1'', postcode = ''00100'',
            city = ''Helsinki'', links_self_href = Some ''https://example.org/api/customers/1''\<rparr>"

definition bob :: customer where
  "bob = \<lparr>firstname = ''Bob'', lastname = ''Jones'', email = ''bob@example.org'',
          phone = ''050456'', streetaddress = ''Side Street 2'', postcode = ''33100'',
          city = ''Tampere'', links_self_href = Some ''https://example.org/api/customers/2''\<rparr>"

definition scenario_trainings :: "training list" where
  "scenario_trainings =
     [\<lparr>id_training = 1, date = 0, duration = 30, activity = ''Run'', customer = Some alice\<rparr>,
      \<lparr>id_training = 2, date = 0, duration = 45, activity = ''Run'', customer = Some bob\<rparr>,
      \<lparr>id_training = 3, date = 0, duration = 20, activity = ''Yoga'', customer = None\<rparr>]"

definition spinning :: training where
  "spinning = \<lparr>id_training = 7, date = 1700000000000, duration = 90, activity = ''Spinning'',
                customer = Some alice\<rparr>"

definition orphan :: training where
  "orphan = \<lparr>id_training = 8, date = 1700000000000, duration = 45, activity = ''Jogging'',
              customer = None\<rparr>"

definition pilates_form :: training_form where
  "pilates_form = \<lparr>form_date = ''2024-11-03T10:00:00.000Z'', form_duration = 60,
                    form_activity = ''Pilates'',
                    form_customer = ''https://example.org/api/customers/1''\<rparr>"

text \<open>
  On a string of ASCII characters the runtime's \<^verbatim>\<open>toLowerCase\<close> replaces the
  letters \<open>A .. Z\<close> (the codes \<open>65 .. 90\<close>) by \<open>a .. z\<close> and keeps every other
  character. The function below does that; it stands for the runtime's function where
  the properties are run on sample data, all of which is ASCII.
\<close>

definition ascii_toLowerCase :: "string \<Rightarrow> string" where
  "ascii_toLowerCase s =
     map (\<lambda>c. if 65 \<le> (of_char c :: nat) \<and> (of_char c :: nat) \<le> 90
              then char_of ((of_char c :: nat) + 32) else c) s"

text \<open>A remote on which every operation succeeds, and one on which every operation fails.\<close>

definition remote_up :: remote where
  "remote_up =
     \<lparr>getCustomers_result = Inr [alice, bob],
      addCustomer_result = (\<lambda>c. Inr ()),
      updateCustomer_result = (\<lambda>url c. Inr ()),
      deleteCustomer_result = (\<lambda>url. Inr ()),
      getTrainings_result = Inr [spinning],
      addTraining_result = (\<lambda>t. Inr ()),
      deleteTraining_result = (\<lambda>i. Inr ())\<rparr>"

definition remote_down :: remote where
  "remote_down =
     \<lparr>getCustomers_result = Inl (TransportError ''Network Error''),
      addCustomer_result = (\<lambda>c. Inl (TransportError ''Network Error'')),
      updateCustomer_result = (\<lambda>url c. Inl (TransportError ''Network Error'')),
      deleteCustomer_result = (\<lambda>url. Inl (TransportError ''Network Error'')),
      getTrainings_result = Inl (TransportError ''Network Error''),
      addTraining_result = (\<lambda>t. Inl (TransportError ''Network Error'')),
      deleteTraining_result = (\<lambda>i. Inl (TransportError ''Network Error''))\<rparr>"

text \<open>
  A customer list that has loaded one customer and has it selected for editing and for
  deletion, and a training list that has loaded one training and has it selected.
\<close>

definition customers_loaded :: customer_list where
  "customers_loaded =
     \<lparr>customers = [alice], loading = False, searchTerm = [], customerDialogOpen = True,
      trainingDialogOpen = True, deleteDialogOpen = True, selectedCustomer = Some alice,
      selectedCustomerUrl = ''https://example.org/api/customers/1'', isEditing = True\<rparr>"

definition trainings_loaded :: training_list where
  "trainings_loaded =
     \<lparr>trainings = [spinning, orphan], loading_T = False, searchTerm_T = [],
      deleteDialogOpen_T = True, selectedTrainingId = Some 7\<rparr>"

section \<open>Properties of the statistics aggregation\<close>

lemma push_value_keys:
  "map fst (push_value key v obj) =
     (if key \<in> set (map fst obj) then map fst obj else map fst obj @ [key])"
  by (induction obj) force+

lemma push_value_distinct:
  "distinct (map fst obj) \<Longrightarrow> distinct (map fst (push_value key v obj))"
  by (simp add: push_value_keys)

lemma push_value_lookup:
  "map_of (push_value key v obj) =
     (map_of obj)(key \<mapsto> (case map_of obj key of None \<Rightarrow> [v] | Some vs \<Rightarrow> vs @ [v]))"
  by (induction obj) (auto simp: fun_eq_iff)

lemma groupBy_snoc: "groupBy (xs @ [x]) f = push_value (f x) x (groupBy xs f)"
  by (simp add: groupBy_def)

lemma groupBy_distinct: "distinct (map fst (groupBy xs f))"
proof (induction xs rule: rev_induct)
  case Nil
  show ?case by (simp add: groupBy_def)
next
  case (snoc x xs)
  then show ?case by (simp add: groupBy_snoc push_value_distinct)
qed

text \<open>The array stored under a key holds the elements with that key, in input order.\<close>

lemma groupBy_lookup:
  "map_of (groupBy xs f) key =
     (if key \<in> f ` set xs then Some (filter (\<lambda>x. f x = key) xs) else None)"
proof (induction xs arbitrary: key rule: rev_induct)
  case Nil
  show ?case by (simp add: groupBy_def)
next
  case (snoc x xs)
  show ?case
  proof (cases "key = f x")
    case True
    then show ?thesis
      unfolding groupBy_snoc push_value_lookup
      by (auto simp: snoc filter_empty_conv image_iff)
  next
    case False
    then show ?thesis
      unfolding groupBy_snoc push_value_lookup
      by (simp add: snoc)
  qed
qed

lemma groupBy_member:
  "(key, vs) \<in> set (groupBy xs f) \<longleftrightarrow> key \<in> f ` set xs \<and> vs = filter (\<lambda>x. f x = key) xs"
proof -
  have "(key, vs) \<in> set (groupBy xs f) \<longleftrightarrow> map_of (groupBy xs f) key = Some vs"
    using groupBy_distinct [of xs f] by (metis map_of_eq_Some_iff)
  then show ?thesis by (auto simp: groupBy_lookup)
qed

lemma groupBy_keys: "set (map fst (groupBy xs f)) = f ` set xs"
proof -
  have "set (map fst (groupBy xs f)) = {k. \<exists>vs. (k, vs) \<in> set (groupBy xs f)}"
    by force
  then show ?thesis by (auto simp: groupBy_member)
qed

lemma sumBy_sum_list: "sumBy xs f = sum_list (map f xs)"
proof -
  have "foldl (\<lambda>result v. result + f v) a xs = a + sum_list (map f xs)" for a
    by (induction xs arbitrary: a) simp_all
  then show ?thesis by (simp add: sumBy_def)
qed

lemma Object_entries_mset: "mset (Object_entries obj) = mset obj"
  by (simp add: Object_entries_def case_prod_unfold)

lemma Object_entries_set: "set (Object_entries obj) = set obj"
  by (metis Object_entries_mset set_mset_mset)

lemma Object_entries_distinct:
  assumes "distinct (map fst obj)"
  shows "distinct (map fst (Object_entries obj))"
proof -
  have "mset (map fst (Object_entries obj)) = mset (map fst obj)"
    by (simp add: Object_entries_mset)
  with assms show ?thesis by (metis mset_eq_imp_distinct_iff)
qed

lemma activityStats_keys:
  "map stat_activity (activityStats ts) = map fst (Object_entries (groupBy ts activity))"
  by (simp add: activityStats_def case_prod_unfold comp_def)

lemma activityStats_member:
  "s \<in> set (activityStats ts) \<longleftrightarrow>
     stat_activity s \<in> activity ` set ts \<and>
     stat_duration s = sum_list (map duration (filter (\<lambda>t. activity t = stat_activity s) ts))"
proof -
  have "s \<in> set (activityStats ts) \<longleftrightarrow>
        (\<exists>k vs. (k, vs) \<in> set (groupBy ts activity) \<and>
                 s = \<lparr>stat_activity = k, stat_duration = sumBy vs duration\<rparr>)"
    by (force simp: activityStats_def Object_entries_set image_iff)
  then show ?thesis by (cases s) (auto simp: groupBy_member sumBy_sum_list)
qed

lemma push_value_total:
  "sum_list (map (\<lambda>(k, vs). sum_list (map d vs)) (push_value key v obj)) =
     sum_list (map (\<lambda>(k, vs). sum_list (map d vs)) obj) + (d v :: int)"
  by (induction obj) auto

lemma groupBy_total:
  "sum_list (map (\<lambda>(k, vs). sum_list (map d vs)) (groupBy xs f)) = (sum_list (map d xs) :: int)"
proof (induction xs rule: rev_induct)
  case Nil
  show ?case by (simp add: groupBy_def)
next
  case (snoc x xs)
  then show ?case by (simp add: groupBy_snoc push_value_total)
qed

lemma activityStats_total:
  "sum_list (map stat_duration (activityStats ts)) = sum_list (map duration ts)"
proof -
  let ?total = "\<lambda>(k :: string, vs). sum_list (map duration vs)"
  have "sum_list (map stat_duration (activityStats ts)) =
        sum_list (map ?total (Object_entries (groupBy ts activity)))"
    by (simp add: activityStats_def sumBy_sum_list case_prod_unfold comp_def)
  also have "\<dots> = sum_mset (image_mset ?total (mset (Object_entries (groupBy ts activity))))"
    by (metis mset_map sum_mset_sum_list)
  also have "\<dots> = sum_list (map ?total (groupBy ts activity))"
    unfolding Object_entries_mset by (metis mset_map sum_mset_sum_list)
  finally show ?thesis by (simp add: groupBy_total)
qed

lemma sort_key_sum: "sum_list (map f (sort_key g xs)) = (sum_list (map f xs) :: int)"
  by (metis mset_map mset_sort sum_mset_sum_list)

lemma sortedStats_set: "set (sortedStats ts) = set (activityStats ts)"
  by (simp add: sortedStats_def)

lemma sortedStats_descending:
  "sorted_wrt (\<lambda>a b. stat_duration b \<le> stat_duration a) (sortedStats ts)"
proof -
  have "sorted (map (\<lambda>s. - stat_duration s) (sortedStats ts))"
    unfolding sortedStats_def by (rule sorted_sort_key)
  then show ?thesis by (simp add: sorted_map)
qed

lemma sortedStats_keys_mset:
  "mset (map stat_activity (sortedStats ts)) = mset (map fst (groupBy ts activity))"
proof -
  have "mset (map stat_activity (sortedStats ts)) = mset (map stat_activity (activityStats ts))"
    by (simp add: sortedStats_def)
  also have "\<dots> = mset (map fst (groupBy ts activity))"
    by (simp add: activityStats_keys Object_entries_mset)
  finally show ?thesis .
qed

text \<open>
  C3. For every loaded training collection the statistics are sorted by descending
  summed duration; every entry carries an activity label of the input and the sum of the
  durations of exactly the trainings whose label equals it; every training's label has
  an entry. The three trainings of the scenario (ids 1, 2, 3; two runs of 30 and 45
  minutes, one yoga session of 20), whatever their dates and customers, give
  Run 75 followed by Yoga 20.
\<close>

theorem sortedStats_groups_sums_sorts:
  "sorted_wrt (\<lambda>a b. stat_duration b \<le> stat_duration a) (sortedStats ts) \<and>
   (\<forall>s \<in> set (sortedStats ts).
      stat_activity s \<in> activity ` set ts \<and>
      stat_duration s =
        sum_list (map duration (filter (\<lambda>t. activity t = stat_activity s) ts))) \<and>
   (\<forall>t \<in> set ts. \<exists>s \<in> set (sortedStats ts). stat_activity s = activity t) \<and>
   sortedStats
     [\<lparr>id_training = 1, date = d1, duration = 30, activity = ''Run'', customer = c1\<rparr>,
      \<lparr>id_training = 2, date = d2, duration = 45, activity = ''Run'', customer = c2\<rparr>,
      \<lparr>id_training = 3, date = d3, duration = 20, activity = ''Yoga'', customer = c3\<rparr>]
     = [\<lparr>stat_activity = ''Run'', stat_duration = 75\<rparr>,
        \<lparr>stat_activity = ''Yoga'', stat_duration = 20\<rparr>]"
proof (intro conjI)
  show "sorted_wrt (\<lambda>a b. stat_duration b \<le> stat_duration a) (sortedStats ts)"
    by (rule sortedStats_descending)
  show "\<forall>s \<in> set (sortedStats ts).
      stat_activity s \<in> activity ` set ts \<and>
      stat_duration s =
        sum_list (map duration (filter (\<lambda>t. activity t = stat_activity s) ts))"
    by (simp add: sortedStats_set activityStats_member)
  show "\<forall>t \<in> set ts. \<exists>s \<in> set (sortedStats ts). stat_activity s = activity t"
  proof
    fix t assume "t \<in> set ts"
    then have "activity t \<in> set (map fst (groupBy ts activity))"
      by (simp only: groupBy_keys) simp
    then have "activity t \<in> set (map stat_activity (activityStats ts))"
      by (simp add: activityStats_keys Object_entries_set)
    then show "\<exists>s \<in> set (sortedStats ts). stat_activity s = activity t"
      by (auto simp: sortedStats_set)
  qed
  show "sortedStats
     [\<lparr>id_training = 1, date = d1, duration = 30, activity = ''Run'', customer = c1\<rparr>,
      \<lparr>id_training = 2, date = d2, duration = 45, activity = ''Run'', customer = c2\<rparr>,
      \<lparr>id_training = 3, date = d3, duration = 20, activity = ''Yoga'', customer = c3\<rparr>]
     = [\<lparr>stat_activity = ''Run'', stat_duration = 75\<rparr>,
        \<lparr>stat_activity = ''Yoga'', stat_duration = 20\<rparr>]"
    by (simp add: sortedStats_def activityStats_def Object_entries_def groupBy_def
          sumBy_def is_array_index_def is_digit_def)
qed

theorem sortedStats_groups_sums_sorts_witness:
  "\<lparr>stat_activity = ''Run'', stat_duration = 75\<rparr> \<in> set (sortedStats scenario_trainings) \<and>
   ''Run'' \<in> activity ` set scenario_trainings \<and>
   (75 :: int) = sum_list (map duration (filter (\<lambda>t. activity t = ''Run'') scenario_trainings)) \<and>
   \<lparr>id_training = 3, date = 0, duration = 20, activity = ''Yoga'', customer = None\<rparr>
     \<in> set scenario_trainings \<and>
   (\<exists>s \<in> set (sortedStats scenario_trainings). stat_activity s = ''Yoga'')"
  using sortedStats_groups_sums_sorts
    [where ts = scenario_trainings and ?d1.0 = 0 and ?d2.0 = 0 and ?d3.0 = 0
       and ?c1.0 = "Some alice" and ?c2.0 = "Some bob" and ?c3.0 = None]
  unfolding scenario_trainings_def
  by simp

text \<open>
  C5. Conservation: the aggregated durations of the statistics add up to the sum of the
  durations of all trainings of the input.
\<close>

theorem sortedStats_conservation:
  "sum_list (map stat_duration (sortedStats ts)) = sum_list (map duration ts)"
  by (simp add: sortedStats_def sort_key_sum activityStats_total)

text \<open>
  C10. The statistics hold every distinct activity label of the input exactly once and no
  other label.
\<close>

theorem sortedStats_labels:
  "distinct (map stat_activity (sortedStats ts)) \<and>
   set (map stat_activity (sortedStats ts)) = activity ` set ts"
proof
  show "distinct (map stat_activity (sortedStats ts))"
    using sortedStats_keys_mset [of ts] groupBy_distinct [of ts activity]
    by (metis mset_eq_imp_distinct_iff)
  have "set (map stat_activity (sortedStats ts)) = set (map fst (groupBy ts activity))"
    using sortedStats_keys_mset [of ts] by (metis set_mset_mset)
  then show "set (map stat_activity (sortedStats ts)) = activity ` set ts"
    by (simp only: groupBy_keys)
qed

section \<open>Properties of the text search and of the calendar projection\<close>

lemma filter_js_total:
  assumes "\<And>x. x \<in> set xs \<Longrightarrow> p x = Inr (q x)"
  shows "filter_js p xs = Inr (filter q xs)"
  using assms by (induction xs) simp_all

lemma training_matches_total:
  "training_matches toLowerCase needle t =
     Inr (str_includes (toLowerCase (activity t)) (toLowerCase needle) \<or>
          (\<exists>c. customer t = Some c \<and>
               str_includes (toLowerCase (firstname c @ '' '' @ lastname c)) (toLowerCase needle)))"
  by (cases "customer t") (auto simp: training_matches_def customer_fullname_def Let_def)

lemma filteredTrainings_total:
  "filteredTrainings toLowerCase needle ts =
     Inr (filter (\<lambda>t. str_includes (toLowerCase (activity t)) (toLowerCase needle) \<or>
          (\<exists>c. customer t = Some c \<and>
               str_includes (toLowerCase (firstname c @ '' '' @ lastname c)) (toLowerCase needle))) ts)"
  unfolding filteredTrainings_def by (rule filter_js_total) (rule training_matches_total)

lemma map_js_Inr: "map_js f xs = Inr ys \<longleftrightarrow> list_all2 (\<lambda>x y. f x = Inr y) xs ys"
proof (induction xs arbitrary: ys)
  case Nil
  show ?case by auto
next
  case (Cons x xs)
  show ?case
  proof (cases "f x")
    case (Inl e)
    then show ?thesis by (auto simp: list_all2_Cons1)
  next
    case fx: (Inr y)
    show ?thesis
    proof (cases "map_js f xs")
      case (Inl e)
      with fx Cons.IH show ?thesis by (auto simp: list_all2_Cons1)
    next
      case (Inr zs)
      with fx Cons.IH show ?thesis by (auto simp: list_all2_Cons1)
    qed
  qed
qed

lemma map_js_Inl: "map_js f xs = Inl e \<Longrightarrow> \<exists>x \<in> set xs. f x = Inl e"
  by (induction xs) (auto split: sum.splits)

lemma map_js_all_Inr:
  "(\<forall>x \<in> set xs. \<exists>y. f x = Inr y) \<Longrightarrow> \<exists>ys. map_js f xs = Inr ys"
  by (induction xs) (auto split: sum.splits)

lemma calendarEvent_Inr:
  "calendarEvent t = Inr ev \<longleftrightarrow>
     (\<exists>c. customer t = Some c \<and>
          ev = \<lparr>ev_id = id_training t,
                ev_title = activity t @ '' / '' @ firstname c @ '' '' @ lastname c,
                ev_start = date t,
                ev_end = date t + duration t * 60000,
                ev_customer = firstname c @ '' '' @ lastname c\<rparr>)"
  by (cases "customer t") (auto simp: calendarEvent_def customer_fullname_def)

lemma calendarEvent_Inl: "calendarEvent t = Inl e \<Longrightarrow> customer t = None"
  by (cases "customer t") (auto simp: calendarEvent_def customer_fullname_def)

lemma filteredCustomers_idem:
  "filteredCustomers toLowerCase needle (filteredCustomers toLowerCase needle cs) =
     filteredCustomers toLowerCase needle cs"
  by (simp add: filteredCustomers_def)

lemma filteredTrainings_idem:
  "filteredTrainings toLowerCase needle ts = Inr shown \<Longrightarrow>
     filteredTrainings toLowerCase needle shown = Inr shown"
  by (auto simp: filteredTrainings_total)

text \<open>
  C6. The local text search of both list views takes the search term and the loaded
  collection and nothing else besides the runtime's \<^verbatim>\<open>toLowerCase\<close>: it has no
  access to the remote and produces no event. Whatever that lower-casing is, a customer
  is shown exactly when the lower-cased term occurs in its lower-cased first name, last
  name, email or city; a training exactly when it occurs in its lower-cased activity or in
  the lower-cased full name of its customer. Terms with the same lower-casing select the
  same rows, and filtering the filtered rows again by the same term changes nothing.
\<close>

theorem text_search_idempotent:
  "filteredCustomers toLowerCase needle (filteredCustomers toLowerCase needle cs) =
     filteredCustomers toLowerCase needle cs \<and>
   (\<exists>shown. filteredTrainings toLowerCase needle ts = Inr shown \<and>
      filteredTrainings toLowerCase needle shown = Inr shown) \<and>
   (c \<in> set (filteredCustomers toLowerCase needle cs) \<longleftrightarrow>
      c \<in> set cs \<and>
      (sublist (toLowerCase needle) (toLowerCase (firstname c)) \<or>
       sublist (toLowerCase needle) (toLowerCase (lastname c)) \<or>
       sublist (toLowerCase needle) (toLowerCase (email c)) \<or>
       sublist (toLowerCase needle) (toLowerCase (city c)))) \<and>
   filteredTrainings toLowerCase needle ts =
     Inr (filter (\<lambda>t. sublist (toLowerCase needle) (toLowerCase (activity t)) \<or>
                      (\<exists>c. customer t = Some c \<and>
                           sublist (toLowerCase needle)
                             (toLowerCase (firstname c @ '' '' @ lastname c)))) ts) \<and>
   (toLowerCase needle = toLowerCase needle' \<longrightarrow>
      filteredCustomers toLowerCase needle cs = filteredCustomers toLowerCase needle' cs \<and>
      filteredTrainings toLowerCase needle ts = filteredTrainings toLowerCase needle' ts)"
proof (intro conjI)
  show "filteredCustomers toLowerCase needle (filteredCustomers toLowerCase needle cs) =
     filteredCustomers toLowerCase needle cs"
    by (rule filteredCustomers_idem)
  show "\<exists>shown. filteredTrainings toLowerCase needle ts = Inr shown \<and>
      filteredTrainings toLowerCase needle shown = Inr shown"
    using filteredTrainings_idem filteredTrainings_total by blast
  show "c \<in> set (filteredCustomers toLowerCase needle cs) \<longleftrightarrow>
      c \<in> set cs \<and>
      (sublist (toLowerCase needle) (toLowerCase (firstname c)) \<or>
       sublist (toLowerCase needle) (toLowerCase (lastname c)) \<or>
       sublist (toLowerCase needle) (toLowerCase (email c)) \<or>
       sublist (toLowerCase needle) (toLowerCase (city c)))"
    by (simp add: filteredCustomers_def str_includes_def Let_def)
  show "filteredTrainings toLowerCase needle ts =
     Inr (filter (\<lambda>t. sublist (toLowerCase needle) (toLowerCase (activity t)) \<or>
                      (\<exists>c. customer t = Some c \<and>
                           sublist (toLowerCase needle)
                             (toLowerCase (firstname c @ '' '' @ lastname c)))) ts)"
    by (simp add: filteredTrainings_total str_includes_def)
  show "toLowerCase needle = toLowerCase needle' \<longrightarrow>
      filteredCustomers toLowerCase needle cs = filteredCustomers toLowerCase needle' cs \<and>
      filteredTrainings toLowerCase needle ts = filteredTrainings toLowerCase needle' ts"
    by (simp add: filteredCustomers_def filteredTrainings_total)
qed

lemma lower_HEL: "ascii_toLowerCase ''HEL'' = ascii_toLowerCase ''hel''"
  by code_simp

lemma filtered_hel: "filteredCustomers ascii_toLowerCase ''hel'' [alice, bob] = [alice]"
  by code_simp

theorem text_search_idempotent_witness:
  "ascii_toLowerCase ''HEL'' = ascii_toLowerCase ''hel'' \<and>
   filteredCustomers ascii_toLowerCase ''HEL'' [alice, bob] = [alice] \<and>
   filteredTrainings ascii_toLowerCase ''HEL'' [spinning, orphan] =
     filteredTrainings ascii_toLowerCase ''hel'' [spinning, orphan]"
proof -
  have "ascii_toLowerCase ''HEL'' = ascii_toLowerCase ''hel'' \<longrightarrow>
      filteredCustomers ascii_toLowerCase ''HEL'' [alice, bob] =
        filteredCustomers ascii_toLowerCase ''hel'' [alice, bob] \<and>
      filteredTrainings ascii_toLowerCase ''HEL'' [spinning, orphan] =
        filteredTrainings ascii_toLowerCase ''hel'' [spinning, orphan]"
    using text_search_idempotent
      [where toLowerCase = ascii_toLowerCase and needle = "''HEL''" and needle' = "''hel''"
         and cs = "[alice, bob]" and ts = "[spinning, orphan]" and c = alice]
    by blast
  with lower_HEL filtered_hel show ?thesis by simp
qed

text \<open>
  C9. The text search of the training list returns a result on every training list and
  every term, also when trainings have no customer (\<^verbatim>\<open>null\<close> or
  \<^verbatim>\<open>undefined\<close>); a training without a customer is among the rows shown exactly
  when it is in the list and its lower-cased activity contains the lower-cased term, the
  lower-casing being the runtime's, whatever it does.
\<close>

theorem filteredTrainings_null_customer:
  "\<exists>shown. filteredTrainings toLowerCase needle ts = Inr shown \<and>
     (\<forall>t. customer t = None \<longrightarrow>
        (t \<in> set shown \<longleftrightarrow>
           t \<in> set ts \<and> str_includes (toLowerCase (activity t)) (toLowerCase needle)))"
  by (auto simp: filteredTrainings_total)

lemma orphan_JOG:
  "str_includes (ascii_toLowerCase (activity orphan)) (ascii_toLowerCase ''JOG'')"
  by code_simp

theorem filteredTrainings_null_customer_witness:
  "customer orphan = None \<and>
   (\<exists>shown. filteredTrainings ascii_toLowerCase ''JOG'' [spinning, orphan] = Inr shown \<and>
      orphan \<in> set shown)"
  using filteredTrainings_null_customer
      [where toLowerCase = ascii_toLowerCase and needle = "''JOG''" and ts = "[spinning, orphan]"]
    orphan_JOG
  by (auto simp: orphan_def)

text \<open>
  C4. Calendar entries are derived one per training, in order. The entry of a training
  starts at the training's instant, ends at the start plus the duration times 60000
  (minutes in milliseconds), and is titled with the activity, \<open>" / "\<close> and the customer's
  first and last name. The entries exist whenever every training of the loaded collection
  carries its customer, and they are what the calendar page then holds; the projection
  raises only on a collection with a training that has no customer.
\<close>

theorem calendar_entries:
  "(case calendarEvents ts of
      Inr evs \<Rightarrow>
        length evs = length ts \<and>
        (\<forall>i < length ts. \<exists>c.
           customer (ts ! i) = Some c \<and>
           ev_start (evs ! i) = date (ts ! i) \<and>
           ev_end (evs ! i) = ev_start (evs ! i) + duration (ts ! i) * 60000 \<and>
           ev_title (evs ! i) = activity (ts ! i) @ '' / '' @ firstname c @ '' '' @ lastname c)
    | Inl e \<Rightarrow> \<exists>t \<in> set ts. customer t = None) \<and>
   ((\<forall>t \<in> set ts. customer t \<noteq> None) \<longrightarrow> (\<exists>evs. calendarEvents ts = Inr evs)) \<and>
   (getTrainings_result r = Inr ts \<longrightarrow> calendarEvents ts = Inr evs \<longrightarrow>
      events (snd (CalendarPage_fetchTrainings r st)) = evs)"
proof (intro conjI)
  show "case calendarEvents ts of
      Inr evs \<Rightarrow>
        length evs = length ts \<and>
        (\<forall>i < length ts. \<exists>c.
           customer (ts ! i) = Some c \<and>
           ev_start (evs ! i) = date (ts ! i) \<and>
           ev_end (evs ! i) = ev_start (evs ! i) + duration (ts ! i) * 60000 \<and>
           ev_title (evs ! i) = activity (ts ! i) @ '' / '' @ firstname c @ '' '' @ lastname c)
    | Inl e \<Rightarrow> \<exists>t \<in> set ts. customer t = None"
  proof (cases "calendarEvents ts")
    case (Inl e)
    then obtain t where "t \<in> set ts" "calendarEvent t = Inl e"
      unfolding calendarEvents_def using map_js_Inl by blast
    then show ?thesis using Inl calendarEvent_Inl by auto
  next
    case (Inr evs)
    then have all: "list_all2 (\<lambda>t ev. calendarEvent t = Inr ev) ts evs"
      by (simp add: calendarEvents_def map_js_Inr)
    then have len: "length evs = length ts"
      by (simp add: list_all2_lengthD)
    have "\<exists>c. customer (ts ! i) = Some c \<and>
           ev_start (evs ! i) = date (ts ! i) \<and>
           ev_end (evs ! i) = ev_start (evs ! i) + duration (ts ! i) * 60000 \<and>
           ev_title (evs ! i) = activity (ts ! i) @ '' / '' @ firstname c @ '' '' @ lastname c"
      if "i < length ts" for i
    proof -
      from all that have "calendarEvent (ts ! i) = Inr (evs ! i)"
        by (rule list_all2_nthD)
      then show ?thesis by (auto simp: calendarEvent_Inr)
    qed
    with len Inr show ?thesis by simp
  qed
  show "(\<forall>t \<in> set ts. customer t \<noteq> None) \<longrightarrow> (\<exists>evs. calendarEvents ts = Inr evs)"
  proof
    assume "\<forall>t \<in> set ts. customer t \<noteq> None"
    then have "\<forall>t \<in> set ts. \<exists>ev. calendarEvent t = Inr ev"
      by (auto simp: calendarEvent_Inr)
    then show "\<exists>evs. calendarEvents ts = Inr evs"
      unfolding calendarEvents_def by (rule map_js_all_Inr)
  qed
  show "getTrainings_result r = Inr ts \<longrightarrow> calendarEvents ts = Inr evs \<longrightarrow>
      events (snd (CalendarPage_fetchTrainings r st)) = evs"
    by (simp add: CalendarPage_fetchTrainings_def)
qed

lemma calendar_spinning:
  "calendarEvents [spinning] =
     Inr [\<lparr>ev_id = 7, ev_title = ''Spinning / Alice Smith'', ev_start = 1700000000000,
           ev_end = 1700005400000, ev_customer = ''Alice Smith''\<rparr>]"
  by (simp add: calendarEvents_def calendarEvent_def customer_fullname_def spinning_def alice_def)

theorem calendar_entries_witness:
  "customer spinning \<noteq> None \<and>
   getTrainings_result remote_up = Inr [spinning] \<and>
   (\<exists>evs. calendarEvents [spinning] = Inr evs \<and>
      events (snd (CalendarPage_fetchTrainings remote_up CalendarPage_initial)) = evs \<and>
      length evs = 1 \<and>
      ev_start (evs ! 0) = 1700000000000 \<and> ev_end (evs ! 0) = 1700005400000 \<and>
      ev_title (evs ! 0) = ''Spinning / Alice Smith'')"
  using calendar_entries [of "[spinning]" remote_up
      "[\<lparr>ev_id = 7, ev_title = ''Spinning / Alice Smith'', ev_start = 1700000000000,
           ev_end = 1700005400000, ev_customer = ''Alice Smith''\<rparr>]" CalendarPage_initial]
    calendar_spinning
  by (simp add: remote_up_def spinning_def)

section \<open>Properties of the fetch, mutate and refresh cycle\<close>

lemma api_calls_append: "api_calls (xs @ ys) = api_calls xs @ api_calls ys"
  by (induction xs rule: api_calls.induct) simp_all

lemma fetchCustomers_calls: "api_calls (fst (fetchCustomers r st)) = [getCustomers]"
  by (simp add: fetchCustomers_def Let_def split: sum.splits)

lemma fetchCustomers_loaded:
  "getCustomers_result r = Inr cs \<Longrightarrow> customers (snd (fetchCustomers r st)) = cs"
  by (simp add: fetchCustomers_def Let_def)

lemma fetchTrainings_calls: "api_calls (fst (fetchTrainings r st)) = [getTrainings]"
  by (simp add: fetchTrainings_def split: sum.splits)

lemma fetchTrainings_loaded:
  "getTrainings_result r = Inr ts \<Longrightarrow> trainings (snd (fetchTrainings r st)) = ts"
  by (simp add: fetchTrainings_def)

lemma handleAddCustomer_ok:
  assumes "addCustomer_result r cust = Inr ()"
  shows "api_calls (fst (handleAddCustomer r cust st)) = [addCustomer cust, getCustomers]"
    and "getCustomers_result r = Inr cs \<Longrightarrow> customers (snd (handleAddCustomer r cust st)) = cs"
  using assms fetchCustomers_calls [of r st] fetchCustomers_loaded [of r cs st]
  by (simp_all add: handleAddCustomer_def case_prod_beta)

lemma handleEditCustomer_ok:
  assumes "selectedCustomer st = Some sel" "links_self_href sel = Some href" "href \<noteq> []"
    and "updateCustomer_result r href cust = Inr ()"
  shows "api_calls (fst (handleEditCustomer r cust st)) = [updateCustomer href cust, getCustomers]"
    and "getCustomers_result r = Inr cs \<Longrightarrow> customers (snd (handleEditCustomer r cust st)) = cs"
  using assms fetchCustomers_calls [of r st] fetchCustomers_loaded [of r cs st]
  by (simp_all add: handleEditCustomer_def case_prod_beta)

lemma handleDeleteCustomer_ok:
  assumes "selectedCustomerUrl st \<noteq> []"
    and "deleteCustomer_result r (selectedCustomerUrl st) = Inr ()"
  shows "api_calls (fst (handleDeleteCustomer r st)) =
           [deleteCustomer (selectedCustomerUrl st), getCustomers]"
    and "getCustomers_result r = Inr cs \<Longrightarrow> customers (snd (handleDeleteCustomer r st)) = cs"
  using assms fetchCustomers_calls [of r st] fetchCustomers_loaded [of r cs st]
  by (simp_all add: handleDeleteCustomer_def case_prod_beta)

lemma handleDeleteTraining_ok:
  assumes "selectedTrainingId st = Some i" "i \<noteq> 0" "deleteTraining_result r i = Inr ()"
  shows "api_calls (fst (handleDeleteTraining r st)) = [deleteTraining i, getTrainings]"
    and "getTrainings_result r = Inr ts \<Longrightarrow> trainings (snd (handleDeleteTraining r st)) = ts"
  using assms fetchTrainings_calls [of r st] fetchTrainings_loaded [of r ts st]
  by (simp_all add: handleDeleteTraining_def api_calls_append case_prod_beta)

lemma handleAddTraining_ok:
  assumes "addTraining_result r form = Inr ()"
  shows "api_calls (fst (handleAddTraining r form st)) = [addTraining form]"
    and "customers (snd (handleAddTraining r form st)) = customers st"
  using assms by (simp_all add: handleAddTraining_def)

text \<open>
  C1, as the code has it. After a successful create, update or delete of a customer the
  customer list makes exactly one list-all call, and after a successful delete of a
  training the training list does; when that call succeeds the collection is the
  response, whatever it was before. Creating a training from the customer list makes no
  list-all call and leaves the customer collection as it was.
\<close>

theorem refresh_after_mutation:
  "(addCustomer_result r cust = Inr () \<longrightarrow>
      api_calls (fst (handleAddCustomer r cust st)) = [addCustomer cust, getCustomers] \<and>
      (\<forall>cs. getCustomers_result r = Inr cs \<longrightarrow>
         customers (snd (handleAddCustomer r cust st)) = cs)) \<and>
   (selectedCustomer st = Some sel \<and> links_self_href sel = Some href \<and> href \<noteq> [] \<and>
    updateCustomer_result r href cust = Inr () \<longrightarrow>
      api_calls (fst (handleEditCustomer r cust st)) = [updateCustomer href cust, getCustomers] \<and>
      (\<forall>cs. getCustomers_result r = Inr cs \<longrightarrow>
         customers (snd (handleEditCustomer r cust st)) = cs)) \<and>
   (selectedCustomerUrl st \<noteq> [] \<and>
    deleteCustomer_result r (selectedCustomerUrl st) = Inr () \<longrightarrow>
      api_calls (fst (handleDeleteCustomer r st)) =
        [deleteCustomer (selectedCustomerUrl st), getCustomers] \<and>
      (\<forall>cs. getCustomers_result r = Inr cs \<longrightarrow>
         customers (snd (handleDeleteCustomer r st)) = cs)) \<and>
   (selectedTrainingId tst = Some i \<and> i \<noteq> 0 \<and> deleteTraining_result r i = Inr () \<longrightarrow>
      api_calls (fst (handleDeleteTraining r tst)) = [deleteTraining i, getTrainings] \<and>
      (\<forall>ts. getTrainings_result r = Inr ts \<longrightarrow>
         trainings (snd (handleDeleteTraining r tst)) = ts)) \<and>
   (addTraining_result r form = Inr () \<longrightarrow>
      api_calls (fst (handleAddTraining r form st)) = [addTraining form] \<and>
      customers (snd (handleAddTraining r form st)) = customers st)"
  using handleAddCustomer_ok [of r cust] handleEditCustomer_ok [of st sel href r cust]
    handleDeleteCustomer_ok [of st r] handleDeleteTraining_ok [of tst i r]
    handleAddTraining_ok [of r form st]
  by blast

theorem refresh_after_mutation_witness:
  "api_calls (fst (handleAddCustomer remote_up bob customers_loaded)) = [addCustomer bob, getCustomers] \<and>
   customers (snd (handleAddCustomer remote_up bob customers_loaded)) = [alice, bob] \<and>
   api_calls (fst (handleEditCustomer remote_up bob customers_loaded)) =
     [updateCustomer ''https://example.org/api/customers/1'' bob, getCustomers] \<and>
   customers (snd (handleEditCustomer remote_up bob customers_loaded)) = [alice, bob] \<and>
   api_calls (fst (handleDeleteCustomer remote_up customers_loaded)) =
     [deleteCustomer ''https://example.org/api/customers/1'', getCustomers] \<and>
   customers (snd (handleDeleteCustomer remote_up customers_loaded)) = [alice, bob] \<and>
   api_calls (fst (handleDeleteTraining remote_up trainings_loaded)) = [deleteTraining 7, getTrainings] \<and>
   trainings (snd (handleDeleteTraining remote_up trainings_loaded)) = [spinning] \<and>
   api_calls (fst (handleAddTraining remote_up pilates_form customers_loaded)) = [addTraining pilates_form] \<and>
   customers (snd (handleAddTraining remote_up pilates_form customers_loaded)) = [alice]"
  using refresh_after_mutation [of remote_up bob customers_loaded alice
      "''https://example.org/api/customers/1''" trainings_loaded 7 pilates_form]
  by (simp add: remote_up_def customers_loaded_def trainings_loaded_def alice_def)

text \<open>
  C1 as stated fails for the training dialog of the customer list: the creating call
  succeeds, no list-all call follows, and the collection is not the one the remote would
  have listed.
\<close>

theorem add_training_without_refresh:
  "addTraining_result remote_up pilates_form = Inr () \<and>
   getCustomers_result remote_up = Inr [alice, bob] \<and>
   count_list (fst (handleAddTraining remote_up pilates_form customers_loaded))
     (ApiCall getCustomers) \<noteq> 1 \<and>
   api_calls (fst (handleAddTraining remote_up pilates_form customers_loaded)) =
     [addTraining pilates_form] \<and>
   customers (snd (handleAddTraining remote_up pilates_form customers_loaded)) = [alice]"
  by (simp add: handleAddTraining_def remote_up_def customers_loaded_def)

lemma handleAddCustomer_failed:
  assumes "addCustomer_result r cust = Inl e"
  shows "handleAddCustomer r cust st =
           ([ApiCall (addCustomer cust), ToastError ''Failed to add customer'',
             ConsoleError ''Error adding customer:'' e], st)"
  using assms by (simp add: handleAddCustomer_def)

lemma handleEditCustomer_failed:
  assumes "selectedCustomer st = Some sel" "links_self_href sel = Some href" "href \<noteq> []"
    and "updateCustomer_result r href cust = Inl e"
  shows "handleEditCustomer r cust st =
           ([ApiCall (updateCustomer href cust), ToastError ''Failed to update customer'',
             ConsoleError ''Error updating customer:'' e], st)"
  using assms by (simp add: handleEditCustomer_def)

lemma handleDeleteCustomer_failed:
  assumes "selectedCustomerUrl st \<noteq> []"
    and "deleteCustomer_result r (selectedCustomerUrl st) = Inl e"
  shows "handleDeleteCustomer r st =
           ([ApiCall (deleteCustomer (selectedCustomerUrl st)),
             ToastError ''Failed to delete customer'',
             ConsoleError ''Error deleting customer:'' e], st)"
  using assms by (simp add: handleDeleteCustomer_def)

lemma handleAddTraining_failed:
  assumes "addTraining_result r form = Inl e"
  shows "handleAddTraining r form st =
           ([ApiCall (addTraining form), ToastError ''Failed to add training'',
             ConsoleError ''Error adding training:'' e], st)"
  using assms by (simp add: handleAddTraining_def)

lemma handleDeleteTraining_failed:
  assumes "selectedTrainingId st = Some i" "i \<noteq> 0" "deleteTraining_result r i = Inl e"
  shows "handleDeleteTraining r st =
           ([ApiCall (deleteTraining i), ConsoleError ''Error deleting training:'' e,
             ToastError ''Failed to delete training session''], st)"
  using assms by (simp add: handleDeleteTraining_def)

text \<open>
  C2. When the mutating call of a handler fails (create, update or delete of a customer,
  create of a training, delete of a training), the handler leaves the whole state of its
  view, and so the loaded collection, as it was; it shows a failure notification; and the
  mutating call is the only call it makes.
\<close>

theorem failed_mutation_keeps_collection:
  "(addCustomer_result r cust = Inl e \<longrightarrow>
      customers (snd (handleAddCustomer r cust st)) = customers st \<and>
      snd (handleAddCustomer r cust st) = st \<and>
      ToastError ''Failed to add customer'' \<in> set (fst (handleAddCustomer r cust st)) \<and>
      api_calls (fst (handleAddCustomer r cust st)) = [addCustomer cust]) \<and>
   (selectedCustomer st = Some sel \<and> links_self_href sel = Some href \<and> href \<noteq> [] \<and>
    updateCustomer_result r href cust = Inl e \<longrightarrow>
      customers (snd (handleEditCustomer r cust st)) = customers st \<and>
      snd (handleEditCustomer r cust st) = st \<and>
      ToastError ''Failed to update customer'' \<in> set (fst (handleEditCustomer r cust st)) \<and>
      api_calls (fst (handleEditCustomer r cust st)) = [updateCustomer href cust]) \<and>
   (selectedCustomerUrl st \<noteq> [] \<and>
    deleteCustomer_result r (selectedCustomerUrl st) = Inl e \<longrightarrow>
      customers (snd (handleDeleteCustomer r st)) = customers st \<and>
      snd (handleDeleteCustomer r st) = st \<and>
      ToastError ''Failed to delete customer'' \<in> set (fst (handleDeleteCustomer r st)) \<and>
      api_calls (fst (handleDeleteCustomer r st)) = [deleteCustomer (selectedCustomerUrl st)]) \<and>
   (addTraining_result r form = Inl e \<longrightarrow>
      customers (snd (handleAddTraining r form st)) = customers st \<and>
      snd (handleAddTraining r form st) = st \<and>
      ToastError ''Failed to add training'' \<in> set (fst (handleAddTraining r form st)) \<and>
      api_calls (fst (handleAddTraining r form st)) = [addTraining form]) \<and>
   (selectedTrainingId tst = Some i \<and> i \<noteq> 0 \<and> deleteTraining_result r i = Inl e \<longrightarrow>
      trainings (snd (handleDeleteTraining r tst)) = trainings tst \<and>
      snd (handleDeleteTraining r tst) = tst \<and>
      ToastError ''Failed to delete training session'' \<in> set (fst (handleDeleteTraining r tst)) \<and>
      api_calls (fst (handleDeleteTraining r tst)) = [deleteTraining i])"
proof (intro conjI impI; (elim conjE)?)
  assume "addCustomer_result r cust = Inl e"
  note h = handleAddCustomer_failed [OF this, of st]
  show "customers (snd (handleAddCustomer r cust st)) = customers st"
    and "snd (handleAddCustomer r cust st) = st"
    and "ToastError ''Failed to add customer'' \<in> set (fst (handleAddCustomer r cust st))"
    and "api_calls (fst (handleAddCustomer r cust st)) = [addCustomer cust]"
    by (simp_all add: h)
next
  assume "selectedCustomer st = Some sel" "links_self_href sel = Some href" "href \<noteq> []"
    "updateCustomer_result r href cust = Inl e"
  note h = handleEditCustomer_failed [OF this]
  show "customers (snd (handleEditCustomer r cust st)) = customers st"
    and "snd (handleEditCustomer r cust st) = st"
    and "ToastError ''Failed to update customer'' \<in> set (fst (handleEditCustomer r cust st))"
    and "api_calls (fst (handleEditCustomer r cust st)) = [updateCustomer href cust]"
    by (simp_all add: h)
next
  assume "selectedCustomerUrl st \<noteq> []" "deleteCustomer_result r (selectedCustomerUrl st) = Inl e"
  note h = handleDeleteCustomer_failed [OF this]
  show "customers (snd (handleDeleteCustomer r st)) = customers st"
    and "snd (handleDeleteCustomer r st) = st"
    and "ToastError ''Failed to delete customer'' \<in> set (fst (handleDeleteCustomer r st))"
    and "api_calls (fst (handleDeleteCustomer r st)) = [deleteCustomer (selectedCustomerUrl st)]"
    by (simp_all add: h)
next
  assume "addTraining_result r form = Inl e"
  note h = handleAddTraining_failed [OF this, of st]
  show "customers (snd (handleAddTraining r form st)) = customers st"
    and "snd (handleAddTraining r form st) = st"
    and "ToastError ''Failed to add training'' \<in> set (fst (handleAddTraining r form st))"
    and "api_calls (fst (handleAddTraining r form st)) = [addTraining form]"
    by (simp_all add: h)
next
  assume "selectedTrainingId tst = Some i" "i \<noteq> 0" "deleteTraining_result r i = Inl e"
  note h = handleDeleteTraining_failed [OF this]
  show "trainings (snd (handleDeleteTraining r tst)) = trainings tst"
    and "snd (handleDeleteTraining r tst) = tst"
    and "ToastError ''Failed to delete training session'' \<in> set (fst (handleDeleteTraining r tst))"
    and "api_calls (fst (handleDeleteTraining r tst)) = [deleteTraining i]"
    by (simp_all add: h)
qed

theorem failed_mutation_keeps_collection_witness:
  "addCustomer_result remote_down bob = Inl (TransportError ''Network Error'') \<and>
   customers (snd (handleAddCustomer remote_down bob customers_loaded)) = [alice] \<and>
   api_calls (fst (handleAddCustomer remote_down bob customers_loaded)) = [addCustomer bob] \<and>
   customers (snd (handleEditCustomer remote_down bob customers_loaded)) = [alice] \<and>
   api_calls (fst (handleEditCustomer remote_down bob customers_loaded)) =
     [updateCustomer ''https://example.org/api/customers/1'' bob] \<and>
   customers (snd (handleDeleteCustomer remote_down customers_loaded)) = [alice] \<and>
   api_calls (fst (handleDeleteCustomer remote_down customers_loaded)) =
     [deleteCustomer ''https://example.org/api/customers/1''] \<and>
   customers (snd (handleAddTraining remote_down pilates_form customers_loaded)) = [alice] \<and>
   api_calls (fst (handleAddTraining remote_down pilates_form customers_loaded)) =
     [addTraining pilates_form] \<and>
   trainings (snd (handleDeleteTraining remote_down trainings_loaded)) = [spinning, orphan] \<and>
   api_calls (fst (handleDeleteTraining remote_down trainings_loaded)) = [deleteTraining 7]"
  using failed_mutation_keeps_collection [of remote_down bob "TransportError ''Network Error''"
      customers_loaded alice "''https://example.org/api/customers/1''" pilates_form
      trainings_loaded 7]
  by (simp add: remote_down_def customers_loaded_def trainings_loaded_def alice_def)

text \<open>
  C8. When the first load of a list view fails, the view holds the empty collection and
  is no longer loading; the handler made the one list-all call, showed a notification
  and logged the error, and returns normally.
\<close>

theorem initial_load_failure:
  "(getCustomers_result r = Inl e \<longrightarrow>
      customers (snd (fetchCustomers r CustomerList_initial)) = [] \<and>
      \<not> loading (snd (fetchCustomers r CustomerList_initial)) \<and>
      fst (fetchCustomers r CustomerList_initial) =
        [ApiCall getCustomers, ToastError ''Failed to fetch customers'',
         ConsoleError ''Error fetching customers:'' e]) \<and>
   (getTrainings_result r = Inl e \<longrightarrow>
      trainings (snd (fetchTrainings r TrainingList_initial)) = [] \<and>
      \<not> loading_T (snd (fetchTrainings r TrainingList_initial)) \<and>
      fst (fetchTrainings r TrainingList_initial) =
        [ApiCall getTrainings, ConsoleError ''Error fetching trainings:'' e,
         ToastError ''Failed to load training sessions''])"
  by (simp add: fetchCustomers_def fetchTrainings_def CustomerList_initial_def
        TrainingList_initial_def Let_def)

theorem initial_load_failure_witness:
  "getCustomers_result remote_down = Inl (TransportError ''Network Error'') \<and>
   getTrainings_result remote_down = Inl (TransportError ''Network Error'') \<and>
   customers (snd (fetchCustomers remote_down CustomerList_initial)) = [] \<and>
   \<not> loading (snd (fetchCustomers remote_down CustomerList_initial)) \<and>
   api_calls (fst (fetchCustomers remote_down CustomerList_initial)) = [getCustomers] \<and>
   trainings (snd (fetchTrainings remote_down TrainingList_initial)) = [] \<and>
   \<not> loading_T (snd (fetchTrainings remote_down TrainingList_initial)) \<and>
   api_calls (fst (fetchTrainings remote_down TrainingList_initial)) = [getTrainings]"
  using initial_load_failure [of remote_down "TransportError ''Network Error''"]
  by (simp add: remote_down_def)

section \<open>The API client and the reset action\<close>

lemma api_request_not_reset: "api_request call \<noteq> reset_request"
  by (cases call) (simp_all add: reset_request_def BASE_URL_def)

text \<open>
  C7 as stated fails: no operation of the API client sends the reset request.
\<close>

theorem api_client_without_reset: "\<not> (\<exists>call. api_request call = reset_request)"
  by (simp add: api_request_not_reset)

text \<open>
  C7, as the code has it. The API client has an operation for each of the seven REST
  actions on customers and trainings: list, create, replace and delete a customer, list,
  create and delete a training. The reset action is not one of its operations; the
  layout sends that request itself and makes no call of the client.
\<close>

theorem api_client_operations:
  "(\<exists>call. api_request call = \<lparr>req_method = GET, req_url = BASE_URL @ ''/customers''\<rparr>) \<and>
   (\<exists>call. api_request call = \<lparr>req_method = POST, req_url = BASE_URL @ ''/customers''\<rparr>) \<and>
   (\<exists>call. api_request call = \<lparr>req_method = PUT, req_url = locator\<rparr>) \<and>
   (\<exists>call. api_request call = \<lparr>req_method = DELETE, req_url = locator\<rparr>) \<and>
   (\<exists>call. api_request call = \<lparr>req_method = GET, req_url = BASE_URL @ ''/gettrainings''\<rparr>) \<and>
   (\<exists>call. api_request call = \<lparr>req_method = POST, req_url = BASE_URL @ ''/trainings''\<rparr>) \<and>
   (\<exists>call. api_request call =
       \<lparr>req_method = DELETE, req_url = BASE_URL @ ''/trainings/'' @ Number_toString trainingId\<rparr>) \<and>
   (\<forall>call. api_request call \<noteq> reset_request) \<and>
   AxiosRequest reset_request \<in> set (handleResetDatabase posted) \<and>
   api_calls (handleResetDatabase posted) = []"
proof (intro conjI)
  show "\<exists>call. api_request call = \<lparr>req_method = GET, req_url = BASE_URL @ ''/customers''\<rparr>"
    by (rule exI [of _ getCustomers]) simp
  show "\<exists>call. api_request call = \<lparr>req_method = POST, req_url = BASE_URL @ ''/customers''\<rparr>"
    by (rule exI [of _ "addCustomer alice"]) simp
  show "\<exists>call. api_request call = \<lparr>req_method = PUT, req_url = locator\<rparr>"
    by (rule exI [of _ "updateCustomer locator alice"]) simp
  show "\<exists>call. api_request call = \<lparr>req_method = DELETE, req_url = locator\<rparr>"
    by (rule exI [of _ "deleteCustomer locator"]) simp
  show "\<exists>call. api_request call = \<lparr>req_method = GET, req_url = BASE_URL @ ''/gettrainings''\<rparr>"
    by (rule exI [of _ getTrainings]) simp
  show "\<exists>call. api_request call = \<lparr>req_method = POST, req_url = BASE_URL @ ''/trainings''\<rparr>"
    by (rule exI [of _ "addTraining pilates_form"]) simp
  show "\<exists>call. api_request call =
       \<lparr>req_method = DELETE, req_url = BASE_URL @ ''/trainings/'' @ Number_toString trainingId\<rparr>"
    by (rule exI [of _ "deleteTraining trainingId"]) simp
  show "\<forall>call. api_request call \<noteq> reset_request"
    by (simp add: api_request_not_reset)
  show "AxiosRequest reset_request \<in> set (handleResetDatabase posted)"
    by (simp add: handleResetDatabase_def split: sum.splits)
  show "api_calls (handleResetDatabase posted) = []"
    by (simp add: handleResetDatabase_def split: sum.splits)
qed

theorem api_client_operations_witness:
  "(\<exists>call. api_request call =
      \<lparr>req_method = PUT, req_url = ''https://example.org/api/customers/1''\<rparr>) \<and>
   (\<exists>call. api_request call =
      \<lparr>req_method = DELETE, req_url = BASE_URL @ ''/trainings/'' @ Number_toString 42\<rparr>) \<and>
   AxiosRequest reset_request \<in> set (handleResetDatabase (Inr ()))"
  using api_client_operations [of "''https://example.org/api/customers/1''" 42 "Inr ()"]
  by blast

end
